theory Spec2Isabelle
  imports Main "HOL-Library.Sublist"
begin

section \<open>Values, objects and the store\<close>

text \<open>
  The library is \<^verbatim>\<open>src/result/index.ts\<close>: two classes \<^verbatim>\<open>Ok<T>\<close> and \<^verbatim>\<open>Err<E>\<close>, each
  with one private field set by the constructor and never assigned again, the constructor
  functions \<^verbatim>\<open>ok\<close> and \<^verbatim>\<open>err\<close>, the helper \<^verbatim>\<open>unwrapFailed\<close> and the free function
  \<^verbatim>\<open>match\<close>.

  TypeScript's type parameters are erased when the program runs, so the payloads of both
  classes are values of one type \<open>'v\<close> of JavaScript values, which the development leaves
  arbitrary. An instance lives in a store at an address; \<^verbatim>\<open>new\<close> appends a cell to the
  store and yields its address, and \<^verbatim>\<open>return this\<close> yields the address the method was
  called on. Two references denote the identical instance exactly when the addresses are
  equal.
\<close>

type_synonym addr = nat

datatype 'v obj =
    Ok 'v     \<comment> \<open>an instance of \<^verbatim>\<open>class Ok<T>\<close> with its field \<^verbatim>\<open>value\<close>\<close>
  | Err 'v    \<comment> \<open>an instance of \<^verbatim>\<open>class Err<E>\<close> with its field \<^verbatim>\<open>error\<close>\<close>

text \<open>
  JavaScript throws any value. \<^verbatim>\<open>throw this.error\<close> throws the payload itself;
  \<^verbatim>\<open>throw new Error(m)\<close> throws a fresh \<^verbatim>\<open>Error\<close> object whose message is \<open>m\<close>; the
  language itself throws a \<^verbatim>\<open>TypeError\<close>, whose message is the engine's, where an
  operation does not apply to its operand.
\<close>

datatype 'v thrown =
    Thrown 'v
  | Thrown_Error string
  | Thrown_TypeError

text \<open>
  The state of a run: the store of Result objects, and the state \<open>'s\<close> of the caller's
  own code, which is all a callback can read and write (the payload fields are private
  and have no setter, so no callback changes a cell of the store).
\<close>

record ('v, 's) world =
  heap :: "'v obj list"
  env :: 's

type_synonym ('v, 's, 'a) prog = "('v, 's) world \<Rightarrow> ('v thrown + 'a) \<times> ('v, 's) world"

type_synonym ('v, 's, 'a) callback = "'v \<Rightarrow> 's \<Rightarrow> ('v thrown + 'a) \<times> 's"

definition ret :: "'a \<Rightarrow> ('v, 's, 'a) prog" where
  "ret x w = (Inr x, w)"

definition throw :: "'v thrown \<Rightarrow> ('v, 's, 'a) prog" where
  "throw x w = (Inl x, w)"

text \<open>Sequencing: a throw of the first part skips the second.\<close>

definition bind :: "('v, 's, 'a) prog \<Rightarrow> ('a \<Rightarrow> ('v, 's, 'b) prog) \<Rightarrow> ('v, 's, 'b) prog" where
  "bind p k w = (case p w of (Inl x, w') \<Rightarrow> (Inl x, w') | (Inr a, w') \<Rightarrow> k a w')"

text \<open>Calling a function the caller passed in: it runs on the caller's state.\<close>

definition call :: "('v, 's, 'a) callback \<Rightarrow> 'v \<Rightarrow> ('v, 's, 'a) prog" where
  "call fn v w = (case fn v (env w) of (out, s') \<Rightarrow> (out, w\<lparr>env := s'\<rparr>))"

text \<open>\<^verbatim>\<open>new C(x)\<close>: the next free address is the length of the store.\<close>

definition new :: "'v obj \<Rightarrow> ('v, 's, addr) prog" where
  "new c w = (Inr (length (heap w)), w\<lparr>heap := heap w @ [c]\<rparr>)"

text \<open>
  A method call \<^verbatim>\<open>r.m(...)\<close> runs the method of the class of the object at \<open>r\<close>, with
  \<^verbatim>\<open>this\<close> bound to \<open>r\<close> and the private field read from the store. A reference of a
  running program always denotes an object of the store; for an address outside the store
  the model throws a \<^verbatim>\<open>TypeError\<close>, as a property access on a non-object does.
\<close>

definition send ::
  "addr \<Rightarrow> (addr \<Rightarrow> 'v \<Rightarrow> ('v, 's, 'a) prog) \<Rightarrow> (addr \<Rightarrow> 'v \<Rightarrow> ('v, 's, 'a) prog)
     \<Rightarrow> ('v, 's, 'a) prog" where
  "send r ok_method err_method w =
     (if r < length (heap w)
      then (case heap w ! r of
              Ok value \<Rightarrow> ok_method r value w
            | Err error \<Rightarrow> err_method r error w)
      else throw Thrown_TypeError w)"

section \<open>Constructors and the failure helper\<close>

definition ok :: "'v \<Rightarrow> ('v, 's, addr) prog" where
  "ok value = new (Ok value)"

definition err :: "'v \<Rightarrow> ('v, 's, addr) prog" where
  "err error = new (Err error)"

text \<open>
  \<^verbatim>\<open>throw new Error(`${msg}: ${error}`)\<close>. The template literal converts \<^verbatim>\<open>error\<close> with
  JavaScript's ToString before the \<^verbatim>\<open>Error\<close> is built. On an object the conversion runs
  the object's own \<^verbatim>\<open>toString\<close>, which is code of the caller: it may change the caller's
  state and it may throw; on a Symbol the conversion throws a \<^verbatim>\<open>TypeError\<close>. So the
  conversion is a parameter of the same kind as a callback, and its throw ends
  \<^verbatim>\<open>unwrapFailed\<close> before the \<^verbatim>\<open>Error\<close> exists. (\<^verbatim>\<open>msg\<close> is a string, which the
  conversion leaves as it is.)
\<close>

definition unwrapFailed ::
  "('v, 's, string) callback \<Rightarrow> string \<Rightarrow> 'v \<Rightarrow> ('v, 's, 'a) prog" where
  "unwrapFailed toString msg error =
     bind (call toString error) (\<lambda>str. throw (Thrown_Error (msg @ '': '' @ str)))"

section \<open>The methods of class Ok\<close>

definition Ok_val :: "addr \<Rightarrow> 'v \<Rightarrow> ('v, 's, 'v) prog" where
  "Ok_val this value = ret value"

definition Ok_isOk :: "addr \<Rightarrow> 'v \<Rightarrow> ('v, 's, bool) prog" where
  "Ok_isOk this value = ret True"

definition Ok_isOkAnd :: "addr \<Rightarrow> 'v \<Rightarrow> ('v, 's, bool) callback \<Rightarrow> ('v, 's, bool) prog" where
  "Ok_isOkAnd this value fn = call fn value"

definition Ok_isErr :: "addr \<Rightarrow> 'v \<Rightarrow> ('v, 's, bool) prog" where
  "Ok_isErr this value = ret False"

definition Ok_isErrAnd :: "addr \<Rightarrow> 'v \<Rightarrow> ('v, 's, bool) callback \<Rightarrow> ('v, 's, bool) prog" where
  "Ok_isErrAnd this value fn = ret False"

definition Ok_map :: "addr \<Rightarrow> 'v \<Rightarrow> ('v, 's, 'v) callback \<Rightarrow> ('v, 's, addr) prog" where
  "Ok_map this value fn = bind (call fn value) ok"

text \<open>The class declares \<^verbatim>\<open>mapOr\<close> and \<^verbatim>\<open>mapOrElse\<close> with the first parameter only.\<close>

definition Ok_mapOr :: "addr \<Rightarrow> 'v \<Rightarrow> ('v, 's, 'u) callback \<Rightarrow> ('v, 's, 'u) prog" where
  "Ok_mapOr this value fn = call fn value"

definition Ok_mapOrElse :: "addr \<Rightarrow> 'v \<Rightarrow> ('v, 's, 'u) callback \<Rightarrow> ('v, 's, 'u) prog" where
  "Ok_mapOrElse this value fn = call fn value"

definition Ok_mapErr :: "addr \<Rightarrow> 'v \<Rightarrow> ('v, 's, addr) prog" where
  "Ok_mapErr this value = ret this"

definition Ok_inspect :: "addr \<Rightarrow> 'v \<Rightarrow> ('v, 's, 'u) callback \<Rightarrow> ('v, 's, addr) prog" where
  "Ok_inspect this value fn = bind (call fn value) (\<lambda>_. ret this)"

definition Ok_inspectErr :: "addr \<Rightarrow> 'v \<Rightarrow> ('v, 's, addr) prog" where
  "Ok_inspectErr this value = ret this"

definition Ok_expect :: "addr \<Rightarrow> 'v \<Rightarrow> string \<Rightarrow> ('v, 's, 'v) prog" where
  "Ok_expect this value msg = ret value"

definition Ok_unwrap :: "addr \<Rightarrow> 'v \<Rightarrow> ('v, 's, 'v) prog" where
  "Ok_unwrap this value = ret value"

definition Ok_expectErr ::
  "('v, 's, string) callback \<Rightarrow> addr \<Rightarrow> 'v \<Rightarrow> string \<Rightarrow> ('v, 's, 'v) prog" where
  "Ok_expectErr toString this value msg = unwrapFailed toString msg value"

definition Ok_unwrapErr :: "('v, 's, string) callback \<Rightarrow> addr \<Rightarrow> 'v \<Rightarrow> ('v, 's, 'v) prog" where
  "Ok_unwrapErr toString this value =
     unwrapFailed toString ''called `Result.unwrapErr()` on an `Ok` value'' value"

section \<open>The methods of class Err\<close>

definition Err_val :: "addr \<Rightarrow> 'v \<Rightarrow> ('v, 's, 'v) prog" where
  "Err_val this error = ret error"

definition Err_isOk :: "addr \<Rightarrow> 'v \<Rightarrow> ('v, 's, bool) prog" where
  "Err_isOk this error = ret False"

definition Err_isOkAnd :: "addr \<Rightarrow> 'v \<Rightarrow> ('v, 's, bool) callback \<Rightarrow> ('v, 's, bool) prog" where
  "Err_isOkAnd this error fn = ret False"

definition Err_isErr :: "addr \<Rightarrow> 'v \<Rightarrow> ('v, 's, bool) prog" where
  "Err_isErr this error = ret True"

definition Err_isErrAnd :: "addr \<Rightarrow> 'v \<Rightarrow> ('v, 's, bool) callback \<Rightarrow> ('v, 's, bool) prog" where
  "Err_isErrAnd this error fn = call fn error"

definition Err_map :: "addr \<Rightarrow> 'v \<Rightarrow> ('v, 's, addr) prog" where
  "Err_map this error = ret this"

definition Err_mapOr :: "addr \<Rightarrow> 'v \<Rightarrow> ('v, 's, 'u) callback \<Rightarrow> 'u \<Rightarrow> ('v, 's, 'u) prog" where
  "Err_mapOr this error fn defaultValue = ret defaultValue"

definition Err_mapOrElse ::
  "addr \<Rightarrow> 'v \<Rightarrow> ('v, 's, 'u) callback \<Rightarrow> ('v, 's, 'u) callback \<Rightarrow> ('v, 's, 'u) prog" where
  "Err_mapOrElse this error fn defaultFn = call defaultFn error"

definition Err_mapErr :: "addr \<Rightarrow> 'v \<Rightarrow> ('v, 's, 'v) callback \<Rightarrow> ('v, 's, addr) prog" where
  "Err_mapErr this error fn = bind (call fn error) err"

definition Err_inspect :: "addr \<Rightarrow> 'v \<Rightarrow> ('v, 's, addr) prog" where
  "Err_inspect this error = ret this"

definition Err_inspectErr :: "addr \<Rightarrow> 'v \<Rightarrow> ('v, 's, 'u) callback \<Rightarrow> ('v, 's, addr) prog" where
  "Err_inspectErr this error fn = bind (call fn error) (\<lambda>_. ret this)"

definition Err_expect ::
  "('v, 's, string) callback \<Rightarrow> addr \<Rightarrow> 'v \<Rightarrow> string \<Rightarrow> ('v, 's, 'v) prog" where
  "Err_expect toString this error msg = unwrapFailed toString msg error"

definition Err_unwrap :: "addr \<Rightarrow> 'v \<Rightarrow> ('v, 's, 'v) prog" where
  "Err_unwrap this error = throw (Thrown error)"

definition Err_expectErr :: "addr \<Rightarrow> 'v \<Rightarrow> string \<Rightarrow> ('v, 's, 'v) prog" where
  "Err_expectErr this error msg = ret error"

definition Err_unwrapErr :: "addr \<Rightarrow> 'v \<Rightarrow> ('v, 's, 'v) prog" where
  "Err_unwrapErr this error = ret error"

section \<open>Method calls on a Result\<close>

text \<open>
  \<^verbatim>\<open>type Result<T, E> = Ok<T> | Err<E>\<close>: a call on a Result runs the method of whichever
  class the object has. A parameter that the class's method does not declare is passed by
  the caller and dropped.
\<close>

definition val :: "addr \<Rightarrow> ('v, 's, 'v) prog" where
  "val r = send r Ok_val Err_val"

definition isOk :: "addr \<Rightarrow> ('v, 's, bool) prog" where
  "isOk r = send r Ok_isOk Err_isOk"

definition isOkAnd :: "addr \<Rightarrow> ('v, 's, bool) callback \<Rightarrow> ('v, 's, bool) prog" where
  "isOkAnd r fn =
     send r (\<lambda>this value. Ok_isOkAnd this value fn) (\<lambda>this error. Err_isOkAnd this error fn)"

definition isErr :: "addr \<Rightarrow> ('v, 's, bool) prog" where
  "isErr r = send r Ok_isErr Err_isErr"

definition isErrAnd :: "addr \<Rightarrow> ('v, 's, bool) callback \<Rightarrow> ('v, 's, bool) prog" where
  "isErrAnd r fn =
     send r (\<lambda>this value. Ok_isErrAnd this value fn) (\<lambda>this error. Err_isErrAnd this error fn)"

definition map_result :: "addr \<Rightarrow> ('v, 's, 'v) callback \<Rightarrow> ('v, 's, addr) prog" where
  "map_result r fn = send r (\<lambda>this value. Ok_map this value fn) Err_map"

definition mapOr :: "addr \<Rightarrow> ('v, 's, 'u) callback \<Rightarrow> 'u \<Rightarrow> ('v, 's, 'u) prog" where
  "mapOr r fn defaultValue =
     send r (\<lambda>this value. Ok_mapOr this value fn)
            (\<lambda>this error. Err_mapOr this error fn defaultValue)"

definition mapOrElse ::
  "addr \<Rightarrow> ('v, 's, 'u) callback \<Rightarrow> ('v, 's, 'u) callback \<Rightarrow> ('v, 's, 'u) prog" where
  "mapOrElse r fn defaultFn =
     send r (\<lambda>this value. Ok_mapOrElse this value fn)
            (\<lambda>this error. Err_mapOrElse this error fn defaultFn)"

definition mapErr :: "addr \<Rightarrow> ('v, 's, 'v) callback \<Rightarrow> ('v, 's, addr) prog" where
  "mapErr r fn = send r Ok_mapErr (\<lambda>this error. Err_mapErr this error fn)"

definition inspect :: "addr \<Rightarrow> ('v, 's, 'u) callback \<Rightarrow> ('v, 's, addr) prog" where
  "inspect r fn = send r (\<lambda>this value. Ok_inspect this value fn) Err_inspect"

definition inspectErr :: "addr \<Rightarrow> ('v, 's, 'u) callback \<Rightarrow> ('v, 's, addr) prog" where
  "inspectErr r fn = send r Ok_inspectErr (\<lambda>this error. Err_inspectErr this error fn)"

definition expect :: "('v, 's, string) callback \<Rightarrow> addr \<Rightarrow> string \<Rightarrow> ('v, 's, 'v) prog" where
  "expect toString r msg =
     send r (\<lambda>this value. Ok_expect this value msg)
            (\<lambda>this error. Err_expect toString this error msg)"

definition unwrap :: "addr \<Rightarrow> ('v, 's, 'v) prog" where
  "unwrap r = send r Ok_unwrap Err_unwrap"

definition expectErr :: "('v, 's, string) callback \<Rightarrow> addr \<Rightarrow> string \<Rightarrow> ('v, 's, 'v) prog" where
  "expectErr toString r msg =
     send r (\<lambda>this value. Ok_expectErr toString this value msg)
            (\<lambda>this error. Err_expectErr this error msg)"

definition unwrapErr :: "('v, 's, string) callback \<Rightarrow> addr \<Rightarrow> ('v, 's, 'v) prog" where
  "unwrapErr toString r = send r (Ok_unwrapErr toString) Err_unwrapErr"

section \<open>The free function match\<close>

text \<open>
  \<^verbatim>\<open>if (result.isOk()) { return okCallback(result.val); } return errorCallback(result.val);\<close>
\<close>

definition match ::
  "addr \<Rightarrow> ('v, 's, 'u) callback \<Rightarrow> ('v, 's, 'u) callback \<Rightarrow> ('v, 's, 'u) prog" where
  "match result okCallback errorCallback =
     bind (isOk result) (\<lambda>b.
       if b then bind (val result) (\<lambda>v. call okCallback v)
       else bind (val result) (\<lambda>v. call errorCallback v))"

section \<open>Observing results and callbacks\<close>

text \<open>
  What a caller can see of a Result without extracting: its variant and its payload,
  read with \<^verbatim>\<open>isOk()\<close> and \<^verbatim>\<open>val\<close>.
\<close>

definition observe :: "addr \<Rightarrow> ('v, 's, bool \<times> 'v) prog" where
  "observe r = bind (isOk r) (\<lambda>b. bind (val r) (\<lambda>x. ret (b, x)))"

text \<open>An arrow function \<^verbatim>\<open>x => e\<close> without effects, as a callback.\<close>

definition arrow :: "('v \<Rightarrow> 'a) \<Rightarrow> ('v, 's, 'a) callback" where
  "arrow f v s = (Inr (f v), s)"

text \<open>The callback \<^verbatim>\<open>x => g(f(x))\<close>: \<open>f\<close> runs first, and its throw skips \<open>g\<close>.\<close>

definition compose :: "('v, 's, 'a) callback \<Rightarrow> ('v, 's, 'v) callback \<Rightarrow> ('v, 's, 'a) callback" where
  "compose g f x s = (case f x s of (Inl t, s') \<Rightarrow> (Inl t, s') | (Inr y, s') \<Rightarrow> g y s')"

text \<open>
  A spy: a callback that computes \<open>f\<close> and appends its name and its argument to a log of
  calls, which is the caller's state. The number of entries with a name is the number of
  times that spy was invoked.
\<close>

definition spy :: "'k \<Rightarrow> ('v \<Rightarrow> 'a) \<Rightarrow> ('v, ('k \<times> 'v) list, 'a) callback" where
  "spy k f v log = (Inr (f v), log @ [(k, v)])"

text \<open>An outcome is a normal return when it is not a throw.\<close>

definition returns :: "('x + 'a) \<times> 'w \<Rightarrow> bool" where
  "returns out = (case fst out of Inl _ \<Rightarrow> False | Inr _ \<Rightarrow> True)"

text \<open>The callback \<^verbatim>\<open>x => { throw x }\<close>.\<close>

definition rethrow :: "('v, 's, 'a) callback" where
  "rethrow v s = (Inl (Thrown v), s)"

text \<open>
  Two kinds of JavaScript primitives and their ToString: a string converts to itself, and
  the conversion of a Symbol throws a \<^verbatim>\<open>TypeError\<close>. Neither touches the caller's state.
\<close>

datatype prim = Text string | Symbol string

definition ToString :: "(prim, 's, string) callback" where
  "ToString x s = (case x of Text str \<Rightarrow> (Inr str, s) | Symbol d \<Rightarrow> (Inl Thrown_TypeError, s))"

text \<open>ToString on the values of a store of strings.\<close>

definition ToString_string :: "(string, 's, string) callback" where
  "ToString_string str s = (Inr str, s)"

text \<open>Numbers (the integral ones) and strings, for the examples that mix both.\<close>

datatype jsval = Num int | Str string

text \<open>
  A store for the examples, over strings: an \<^verbatim>\<open>Ok\<close> at address 0 and an \<^verbatim>\<open>Err\<close> at
  address 1; the caller's state is a counter.
\<close>

definition demo_world :: "(string, nat) world" where
  "demo_world = \<lparr>heap = [Ok ''a'', Err ''b''], env = 0\<rparr>"

text \<open>A callback with an effect: it counts its calls in the caller's state.\<close>

definition tick :: "('v, nat, unit) callback" where
  "tick v n = (Inr (), Suc n)"

text \<open>
  The arrow function \<^verbatim>\<open>x => x * 2\<close> on numbers. What JavaScript's multiplication makes of
  a string is not a value of \<open>jsval\<close> in general, so that case is a parameter.
\<close>

definition times2 :: "(string \<Rightarrow> jsval) \<Rightarrow> jsval \<Rightarrow> jsval" where
  "times2 on_string x = (case x of Num n \<Rightarrow> Num (n * 2) | Str s \<Rightarrow> on_string s)"

section \<open>Basic facts about running programs\<close>

lemma bind_ret [simp]: "bind (ret x) k w = k x w"
  by (simp add: bind_def ret_def)

lemma bind_throw [simp]: "bind (throw x) k w = throw x w"
  by (simp add: bind_def throw_def)

lemma bind_new [simp]: "bind (new c) k w = k (length (heap w)) (w\<lparr>heap := heap w @ [c]\<rparr>)"
  by (simp add: bind_def new_def)

lemma send_fresh [simp]:
  "send (length (heap w)) okm errm (w\<lparr>heap := heap w @ [c]\<rparr>) =
     (case c of Ok value \<Rightarrow> okm (length (heap w)) value (w\<lparr>heap := heap w @ [c]\<rparr>)
              | Err error \<Rightarrow> errm (length (heap w)) error (w\<lparr>heap := heap w @ [c]\<rparr>))"
  by (simp add: send_def)

lemma send_live:
  "r < length (heap w) \<Longrightarrow>
     send r okm errm w =
       (case heap w ! r of Ok value \<Rightarrow> okm r value w | Err error \<Rightarrow> errm r error w)"
  by (simp add: send_def)

lemma returns_ret [simp]: "returns (ret x w)"
  by (simp add: returns_def ret_def)

lemma returns_throw [simp]: "\<not> returns (throw x w)"
  by (simp add: returns_def throw_def)

lemma returns_new [simp]: "returns (new c w)"
  by (simp add: returns_def new_def)

lemma returns_call [simp]: "returns (call fn v w) = returns (fn v (env w))"
  by (simp add: returns_def call_def split: prod.splits)

lemma returns_call_then:
  assumes k: "\<And>a w'. returns (k a w')"
  shows "returns (bind (call fn v) k w) = returns (fn v (env w))"
proof -
  obtain out s' where run: "fn v (env w) = (out, s')"
    by (cases "fn v (env w)")
  show ?thesis
  proof (cases out)
    case (Inl x)
    with run show ?thesis
      by (simp add: bind_def call_def returns_def)
  next
    case (Inr a)
    with run have "bind (call fn v) k w = k a (w\<lparr>env := s'\<rparr>)"
      by (simp add: bind_def call_def)
    with k run Inr show ?thesis
      by (simp add: returns_def)
  qed
qed

section \<open>Construction and the queries\<close>

text \<open>
  Claim C1. For every value \<open>v\<close>, \<^verbatim>\<open>ok(v).isOk()\<close> returns true, \<^verbatim>\<open>ok(v).isErr()\<close> returns
  false and \<^verbatim>\<open>ok(v).val\<close> is \<open>v\<close>; for every error \<open>e\<close>, \<^verbatim>\<open>err(e).isOk()\<close> returns false,
  \<^verbatim>\<open>err(e).isErr()\<close> returns true and \<^verbatim>\<open>err(e).val\<close> is \<open>e\<close>. This holds from every state.
\<close>

theorem ok_err_queries:
  "fst (bind (ok v) isOk w) = Inr True \<and>
   fst (bind (ok v) isErr w) = Inr False \<and>
   fst (bind (ok v) val w) = Inr v \<and>
   fst (bind (err e) isOk w) = Inr False \<and>
   fst (bind (err e) isErr w) = Inr True \<and>
   fst (bind (err e) val w) = Inr e"
  by (simp add: ok_def err_def isOk_def isErr_def val_def ret_def
      Ok_isOk_def Ok_isErr_def Ok_val_def Err_isOk_def Err_isErr_def Err_val_def)

section \<open>Extraction\<close>

text \<open>
  Claim C2. For every value \<open>v\<close>, \<^verbatim>\<open>ok(v).unwrap()\<close> returns \<open>v\<close>; for every error \<open>e\<close>,
  \<^verbatim>\<open>err(e).unwrap()\<close> throws, and what it throws is the contained error \<open>e\<close> itself, not an
  \<^verbatim>\<open>Error\<close> object made from a message.
\<close>

theorem unwrap_ok_err:
  "fst (bind (ok v) unwrap w) = Inr v \<and>
   fst (bind (err e) unwrap w) = Inl (Thrown e)"
  by (simp add: ok_def err_def unwrap_def Ok_unwrap_def Err_unwrap_def ret_def throw_def)

text \<open>
  Claim C3, as the code has it. For every error \<open>e\<close>, \<^verbatim>\<open>err(e).unwrapErr()\<close> returns \<open>e\<close>
  and converts nothing. For every value \<open>v\<close>, \<^verbatim>\<open>ok(v).unwrapErr()\<close> converts \<open>v\<close> to a string
  once and never returns: when the conversion yields \<open>str\<close> it throws an \<^verbatim>\<open>Error\<close> whose
  message is the text \<^verbatim>\<open>called `Result.unwrapErr()` on an `Ok` value\<close>, then a colon and a
  space, then \<open>str\<close>; when the conversion throws, that throw is what comes out.
\<close>

theorem unwrapErr_ok_err:
  "bind (err e) (unwrapErr toString) w = (Inr e, w\<lparr>heap := heap w @ [Err e]\<rparr>) \<and>
   fst (bind (ok v) (unwrapErr toString) w) =
     (case fst (toString v (env w)) of
        Inl x \<Rightarrow> Inl x
      | Inr str \<Rightarrow>
          Inl (Thrown_Error (''called `Result.unwrapErr()` on an `Ok` value: '' @ str))) \<and>
   env (snd (bind (ok v) (unwrapErr toString) w)) = snd (toString v (env w))"
proof -
  have on_err: "bind (err e) (unwrapErr toString) w = (Inr e, w\<lparr>heap := heap w @ [Err e]\<rparr>)"
    by (simp add: err_def unwrapErr_def Err_unwrapErr_def ret_def)
  obtain out s' where run: "toString v (env w) = (out, s')"
    by (cases "toString v (env w)")
  have on_ok: "bind (ok v) (unwrapErr toString) w =
      ((case out of
          Inl x \<Rightarrow> Inl x
        | Inr str \<Rightarrow>
            Inl (Thrown_Error (''called `Result.unwrapErr()` on an `Ok` value: '' @ str))),
       w\<lparr>heap := heap w @ [Ok v], env := s'\<rparr>)"
    using run
    by (cases out)
      (simp_all add: ok_def unwrapErr_def Ok_unwrapErr_def unwrapFailed_def bind_def call_def
        new_def send_def throw_def)
  from on_err on_ok run show ?thesis
    by simp
qed

text \<open>
  The message is not the text \<^verbatim>\<open>called unwrapErr() on an Ok value\<close> with the stringified
  value appended, and does not contain that text: for the string \<^verbatim>\<open>x\<close> the message is
  \<^verbatim>\<open>called `Result.unwrapErr()` on an `Ok` value: x\<close>. And for a Symbol, which has no string
  conversion, what is thrown is the conversion's \<^verbatim>\<open>TypeError\<close>, not an \<^verbatim>\<open>Error\<close> with a
  description.
\<close>

theorem unwrapErr_description_counterexample:
  "fst (bind (ok (Text ''x'')) (unwrapErr ToString) \<lparr>heap = [], env = ()\<rparr>) =
     Inl (Thrown_Error ''called `Result.unwrapErr()` on an `Ok` value: x'') \<and>
   fst (bind (ok (Text ''x'')) (unwrapErr ToString) \<lparr>heap = [], env = ()\<rparr>) \<noteq>
     Inl (Thrown_Error (''called unwrapErr() on an Ok value'' @ ''x'')) \<and>
   \<not> sublist ''called unwrapErr() on an Ok value''
     ''called `Result.unwrapErr()` on an `Ok` value: x'' \<and>
   fst (bind (ok (Symbol ''s'')) (unwrapErr ToString) \<lparr>heap = [], env = ()\<rparr>) =
     Inl Thrown_TypeError"
proof -
  have thrown: "fst (bind (ok (Text ''x'')) (unwrapErr ToString) \<lparr>heap = [], env = ()\<rparr>) =
      Inl (Thrown_Error ''called `Result.unwrapErr()` on an `Ok` value: x'')"
    by (simp add: ok_def new_def bind_def send_def unwrapErr_def Ok_unwrapErr_def
        unwrapFailed_def call_def ToString_def throw_def)
  have absent: "\<not> sublist ''called unwrapErr() on an Ok value''
      ''called `Result.unwrapErr()` on an `Ok` value: x''"
    by (simp add: sublist_code)
  have symbol: "fst (bind (ok (Symbol ''s'')) (unwrapErr ToString) \<lparr>heap = [], env = ()\<rparr>) =
      Inl Thrown_TypeError"
    by (simp add: ok_def new_def bind_def send_def unwrapErr_def Ok_unwrapErr_def
        unwrapFailed_def call_def ToString_def throw_def)
  from thrown absent symbol show ?thesis
    by simp
qed

text \<open>
  Claim C4, as the code has it. For every value \<open>v\<close> and message \<open>m\<close>, \<^verbatim>\<open>ok(v).expect(m)\<close>
  returns \<open>v\<close> and converts nothing. For every error \<open>e\<close>, \<^verbatim>\<open>err(e).expect(m)\<close> converts \<open>e\<close>
  to a string once and never returns: when the conversion yields \<open>str\<close> it throws an
  \<^verbatim>\<open>Error\<close> whose message is \<open>m\<close>, a colon and a space, and \<open>str\<close>, so the message contains
  both \<open>m\<close> and \<open>str\<close>; when the conversion throws, that throw is what comes out.
  \<^verbatim>\<open>err("boom").expect("ctx")\<close> throws with the message \<^verbatim>\<open>ctx: boom\<close>.
\<close>

theorem expect_ok_err:
  "bind (ok v) (\<lambda>r. expect toString r m) w = (Inr v, w\<lparr>heap := heap w @ [Ok v]\<rparr>) \<and>
   (case fst (toString e (env w)) of
      Inl x \<Rightarrow> fst (bind (err e) (\<lambda>r. expect toString r m) w) = Inl x
    | Inr str \<Rightarrow>
        (\<exists>d. fst (bind (err e) (\<lambda>r. expect toString r m) w) = Inl (Thrown_Error d) \<and>
             d = m @ '': '' @ str \<and> sublist m d \<and> sublist str d)) \<and>
   env (snd (bind (err e) (\<lambda>r. expect toString r m) w)) = snd (toString e (env w)) \<and>
   fst (bind (err (Text ''boom'')) (\<lambda>r. expect ToString r ''ctx'') w') =
     Inl (Thrown_Error ''ctx: boom'')"
proof -
  have on_ok: "bind (ok v) (\<lambda>r. expect toString r m) w = (Inr v, w\<lparr>heap := heap w @ [Ok v]\<rparr>)"
    by (simp add: ok_def expect_def Ok_expect_def ret_def)
  obtain out s' where run: "toString e (env w) = (out, s')"
    by (cases "toString e (env w)")
  have on_err: "bind (err e) (\<lambda>r. expect toString r m) w =
      ((case out of Inl x \<Rightarrow> Inl x | Inr str \<Rightarrow> Inl (Thrown_Error (m @ '': '' @ str))),
       w\<lparr>heap := heap w @ [Err e], env := s'\<rparr>)"
    using run
    by (cases out)
      (simp_all add: err_def expect_def Err_expect_def unwrapFailed_def bind_def call_def
        new_def send_def throw_def)
  have inside: "sublist m (m @ '': '' @ str) \<and> sublist str (m @ '': '' @ str)" for str
  proof
    show "sublist m (m @ '': '' @ str)"
      by (rule sublist_append_rightI)
    have "sublist str ((m @ '': '') @ str)"
      by (rule sublist_append_leftI)
    then show "sublist str (m @ '': '' @ str)"
      by simp
  qed
  have described: "case fst (toString e (env w)) of
      Inl x \<Rightarrow> fst (bind (err e) (\<lambda>r. expect toString r m) w) = Inl x
    | Inr str \<Rightarrow>
        (\<exists>d. fst (bind (err e) (\<lambda>r. expect toString r m) w) = Inl (Thrown_Error d) \<and>
             d = m @ '': '' @ str \<and> sublist m d \<and> sublist str d)"
    using on_err run inside
    by (cases out) simp_all
  have boom: "fst (bind (err (Text ''boom'')) (\<lambda>r. expect ToString r ''ctx'') w') =
      Inl (Thrown_Error ''ctx: boom'')"
    by (simp add: err_def expect_def Err_expect_def unwrapFailed_def bind_def call_def
        new_def send_def ToString_def throw_def)
  from on_ok described on_err run boom show ?thesis
    by simp
qed

text \<open>
  The description is not there for every error: a Symbol has no string conversion, and
  \<^verbatim>\<open>err(Symbol("s")).expect("ctx")\<close> ends with the conversion's \<^verbatim>\<open>TypeError\<close>, which
  carries neither the context nor the error.
\<close>

theorem expect_description_counterexample:
  "fst (bind (err (Symbol ''s'')) (\<lambda>r. expect ToString r ''ctx'') \<lparr>heap = [], env = ()\<rparr>) =
     Inl Thrown_TypeError"
  by (simp add: err_def new_def bind_def send_def expect_def Err_expect_def unwrapFailed_def
      call_def ToString_def throw_def)

section \<open>Where the library throws\<close>

text \<open>
  Claim C5. On a Result of the store the queries \<^verbatim>\<open>val\<close>, \<^verbatim>\<open>isOk\<close> and \<^verbatim>\<open>isErr\<close> return
  normally, and so do the constructors from every state. Each operation that takes
  callbacks invokes at most one of them, on the payload: it returns normally exactly when
  that one call returns, and it returns normally whatever the callbacks are when it invokes
  none. That covers \<^verbatim>\<open>isOkAnd\<close>, \<^verbatim>\<open>isErrAnd\<close>, \<^verbatim>\<open>map\<close>, \<^verbatim>\<open>mapOr\<close>, \<^verbatim>\<open>mapOrElse\<close>, \<^verbatim>\<open>mapErr\<close>,
  \<^verbatim>\<open>inspect\<close>, \<^verbatim>\<open>inspectErr\<close> and \<^verbatim>\<open>match\<close>. The extractions on the matching variant return
  normally too, without a string conversion: \<^verbatim>\<open>unwrap\<close> and \<^verbatim>\<open>expect\<close> on an \<^verbatim>\<open>Ok\<close>,
  \<^verbatim>\<open>unwrapErr\<close> and \<^verbatim>\<open>expectErr\<close> on an \<^verbatim>\<open>Err\<close>.
\<close>

theorem core_never_throws:
  fixes p :: "('v, 's, bool) callback" and f :: "('v, 's, 'v) callback"
    and g h :: "('v, 's, 'u) callback" and i :: "('v, 's, 'b) callback"
    and w :: "('v, 's) world"
  assumes live: "r < length (heap w)"
  shows "returns (ok v w) \<and> returns (err e w) \<and>
    returns (val r w) \<and> returns (isOk r w) \<and> returns (isErr r w) \<and>
    (case heap w ! r of
       Ok value \<Rightarrow>
         returns (isOkAnd r p w) = returns (p value (env w)) \<and>
         returns (isErrAnd r p w) \<and>
         returns (map_result r f w) = returns (f value (env w)) \<and>
         returns (mapOr r g d w) = returns (g value (env w)) \<and>
         returns (mapOrElse r g h w) = returns (g value (env w)) \<and>
         returns (mapErr r f w) \<and>
         returns (inspect r i w) = returns (i value (env w)) \<and>
         returns (inspectErr r i w) \<and>
         returns (match r g h w) = returns (g value (env w)) \<and>
         returns (unwrap r w) \<and> returns (expect toString r m w)
     | Err error \<Rightarrow>
         returns (isOkAnd r p w) \<and>
         returns (isErrAnd r p w) = returns (p error (env w)) \<and>
         returns (map_result r f w) \<and>
         returns (mapOr r g d w) \<and>
         returns (mapOrElse r g h w) = returns (h error (env w)) \<and>
         returns (mapErr r f w) = returns (f error (env w)) \<and>
         returns (inspect r i w) \<and>
         returns (inspectErr r i w) = returns (i error (env w)) \<and>
         returns (match r g h w) = returns (h error (env w)) \<and>
         returns (unwrapErr toString r w) \<and> returns (expectErr toString r m w))"
proof -
  have ctor: "returns (ok v w) \<and> returns (err e w)"
    by (simp add: ok_def err_def)
  have plain: "returns (val r w) \<and> returns (isOk r w) \<and> returns (isErr r w)"
    using live
    by (simp add: val_def isOk_def isErr_def send_live Ok_val_def Err_val_def Ok_isOk_def
        Err_isOk_def Ok_isErr_def Err_isErr_def split: obj.splits)
  have then_ok: "returns (bind (call c x) ok w) = returns (c x (env w))"
    for c :: "('v, 's, 'v) callback" and x
    by (rule returns_call_then) (simp add: ok_def)
  have then_err: "returns (bind (call c x) err w) = returns (c x (env w))"
    for c :: "('v, 's, 'v) callback" and x
    by (rule returns_call_then) (simp add: err_def)
  have then_this: "returns (bind (call c x) (\<lambda>_. ret r) w) = returns (c x (env w))"
    for c :: "('v, 's, 'b) callback" and x
    by (rule returns_call_then) simp
  show ?thesis
  proof (cases "heap w ! r")
    case (Ok x)
    have preds: "returns (isOkAnd r p w) = returns (p x (env w)) \<and> returns (isErrAnd r p w)"
      using live Ok
      by (simp add: isOkAnd_def isErrAnd_def send_live Ok_isOkAnd_def Ok_isErrAnd_def)
    have maps: "returns (map_result r f w) = returns (f x (env w)) \<and> returns (mapErr r f w)"
      using live Ok
      by (simp add: map_result_def mapErr_def send_live Ok_map_def Ok_mapErr_def then_ok)
    have folds: "returns (mapOr r g d w) = returns (g x (env w)) \<and>
        returns (mapOrElse r g h w) = returns (g x (env w))"
      using live Ok
      by (simp add: mapOr_def mapOrElse_def send_live Ok_mapOr_def Ok_mapOrElse_def)
    have looks: "returns (inspect r i w) = returns (i x (env w)) \<and>
        returns (inspectErr r i w)"
      using live Ok
      by (simp add: inspect_def inspectErr_def send_live Ok_inspect_def Ok_inspectErr_def
          then_this)
    have dispatch: "returns (match r g h w) = returns (g x (env w))"
      using live Ok
      by (simp add: match_def isOk_def val_def bind_def ret_def send_def Ok_isOk_def
          Ok_val_def)
    have matched: "returns (unwrap r w) \<and> returns (expect toString r m w)"
      using live Ok
      by (simp add: unwrap_def expect_def send_live Ok_unwrap_def Ok_expect_def)
    from ctor plain preds maps folds looks dispatch matched Ok show ?thesis
      by simp
  next
    case (Err x)
    have preds: "returns (isOkAnd r p w) \<and> returns (isErrAnd r p w) = returns (p x (env w))"
      using live Err
      by (simp add: isOkAnd_def isErrAnd_def send_live Err_isOkAnd_def Err_isErrAnd_def)
    have maps: "returns (map_result r f w) \<and> returns (mapErr r f w) = returns (f x (env w))"
      using live Err
      by (simp add: map_result_def mapErr_def send_live Err_map_def Err_mapErr_def then_err)
    have folds: "returns (mapOr r g d w) \<and>
        returns (mapOrElse r g h w) = returns (h x (env w))"
      using live Err
      by (simp add: mapOr_def mapOrElse_def send_live Err_mapOr_def Err_mapOrElse_def)
    have looks: "returns (inspect r i w) \<and>
        returns (inspectErr r i w) = returns (i x (env w))"
      using live Err
      by (simp add: inspect_def inspectErr_def send_live Err_inspect_def Err_inspectErr_def
          then_this)
    have dispatch: "returns (match r g h w) = returns (h x (env w))"
      using live Err
      by (simp add: match_def isOk_def val_def bind_def ret_def send_def Err_isOk_def
          Err_val_def)
    have matched: "returns (unwrapErr toString r w) \<and> returns (expectErr toString r m w)"
      using live Err
      by (simp add: unwrapErr_def expectErr_def send_live Err_unwrapErr_def Err_expectErr_def)
    from ctor plain preds maps folds looks dispatch matched Err show ?thesis
      by simp
  qed
qed

text \<open>
  On the store of the examples: a callback that throws does no harm where it is not
  invoked, and a callback that counts returns where it is.
\<close>

theorem core_never_throws_witness:
  "0 < length (heap demo_world) \<and> Suc 0 < length (heap demo_world) \<and>
   returns (val 0 demo_world) \<and> returns (isOk (Suc 0) demo_world) \<and>
   returns (isOkAnd 0 (arrow (\<lambda>x. x = ''a'')) demo_world) \<and>
   returns (isErrAnd 0 rethrow demo_world) \<and>
   returns (map_result 0 (arrow (\<lambda>x. x @ ''!'')) demo_world) \<and>
   returns (mapErr 0 rethrow demo_world) \<and>
   returns (mapOrElse 0 (arrow length) rethrow demo_world) \<and>
   returns (inspect 0 tick demo_world) \<and>
   returns (match 0 (arrow length) rethrow demo_world) \<and>
   \<not> returns (match 0 rethrow (arrow length) demo_world) \<and>
   returns (unwrap 0 demo_world) \<and> returns (expect ToString_string 0 ''ctx'' demo_world) \<and>
   returns (isOkAnd (Suc 0) rethrow demo_world) \<and>
   returns (map_result (Suc 0) rethrow demo_world) \<and>
   returns (mapErr (Suc 0) (arrow (\<lambda>x. x @ ''!'')) demo_world) \<and>
   returns (mapOrElse (Suc 0) rethrow (arrow length) demo_world) \<and>
   returns (inspectErr (Suc 0) tick demo_world) \<and>
   returns (match (Suc 0) rethrow (arrow length) demo_world) \<and>
   returns (unwrapErr ToString_string (Suc 0) demo_world) \<and>
   returns (expectErr ToString_string (Suc 0) ''ctx'' demo_world)"
proof -
  have live0: "0 < length (heap demo_world)" and live1: "Suc 0 < length (heap demo_world)"
    by (simp_all add: demo_world_def)
  have at0: "heap demo_world ! 0 = Ok ''a''" and at1: "heap demo_world ! Suc 0 = Err ''b''"
    by (simp_all add: demo_world_def)
  have runs: "returns (arrow f x (s::nat))" "returns (tick x s)" "\<not> returns (rethrow x s)"
    for f :: "string \<Rightarrow> 'a" and x :: string and s
    by (simp_all add: returns_def arrow_def tick_def rethrow_def)
  note ok_good = core_never_throws [where r = 0 and w = demo_world
      and p = "arrow (\<lambda>x. x = ''a'')" and f = "arrow (\<lambda>x. x @ ''!'')" and g = "arrow length"
      and h = rethrow and i = tick and toString = ToString_string and m = "''ctx''",
      OF live0, unfolded at0 obj.case]
  note ok_bad = core_never_throws [where r = 0 and w = demo_world
      and p = rethrow and f = rethrow and g = rethrow and h = "arrow length" and i = tick,
      OF live0, unfolded at0 obj.case]
  note err_good = core_never_throws [where r = "Suc 0" and w = demo_world
      and p = rethrow and f = "arrow (\<lambda>x. x @ ''!'')" and g = rethrow
      and h = "arrow length" and i = tick and toString = ToString_string and m = "''ctx''",
      OF live1, unfolded at1 obj.case]
  note err_bad = core_never_throws [where r = "Suc 0" and w = demo_world
      and p = rethrow and f = rethrow and g = rethrow and h = "arrow length" and i = tick,
      OF live1, unfolded at1 obj.case]
  from live0 live1 ok_good ok_bad err_good err_bad show ?thesis
    by (simp add: runs)
qed

section \<open>Transforming the value\<close>

text \<open>
  Claim C6. For every value \<open>v\<close> and callback \<open>f\<close>, \<^verbatim>\<open>ok(v).map(f)\<close> makes one call of \<open>f\<close>
  on \<open>v\<close> and, when the call returns \<open>u\<close>, returns a new \<^verbatim>\<open>Ok\<close> holding \<open>u\<close>: the store gains
  that cell, the result is observed as an \<^verbatim>\<open>Ok\<close> with payload \<open>u\<close>, and evaluating
  \<^verbatim>\<open>ok(v).map(f).val\<close> has the outcome of evaluating \<open>f(v)\<close> and leaves the caller's state as
  the call leaves it. For every error \<open>e\<close>, \<^verbatim>\<open>err(e).map(f)\<close> is the \<^verbatim>\<open>Err\<close> holding \<open>e\<close>, and
  \<open>f\<close> is not invoked: the state afterwards is the state before with the cell of \<^verbatim>\<open>err(e)\<close>,
  and the log of a spy stays empty.
\<close>

theorem map_functor:
  "bind (ok v) (\<lambda>r. map_result r f) w =
     (case f v (env w) of
        (Inl x, s') \<Rightarrow> (Inl x, w\<lparr>heap := heap w @ [Ok v], env := s'\<rparr>)
      | (Inr u, s') \<Rightarrow>
          (Inr (Suc (length (heap w))), w\<lparr>heap := heap w @ [Ok v, Ok u], env := s'\<rparr>)) \<and>
   fst (bind (ok v) (\<lambda>r. bind (map_result r f) observe) w) =
     (case fst (f v (env w)) of Inl x \<Rightarrow> Inl x | Inr u \<Rightarrow> Inr (True, u)) \<and>
   fst (bind (ok v) (\<lambda>r. bind (map_result r f) val) w) = fst (f v (env w)) \<and>
   env (snd (bind (ok v) (\<lambda>r. bind (map_result r f) val) w)) = snd (f v (env w)) \<and>
   fst (bind (ok v) (\<lambda>r. bind (map_result r (arrow h)) observe) w) = Inr (True, h v) \<and>
   bind (err e) (\<lambda>r. map_result r f) w = (Inr (length (heap w)), w\<lparr>heap := heap w @ [Err e]\<rparr>) \<and>
   fst (bind (err e) (\<lambda>r. bind (map_result r f) observe) w) = Inr (False, e) \<and>
   env (snd (bind (err e) (\<lambda>r. map_result r f) w)) = env w \<and>
   env (snd (bind (err e) (\<lambda>r. map_result r (spy k h)) \<lparr>heap = hp, env = []\<rparr>)) = []"
proof -
  obtain out s' where run: "f v (env w) = (out, s')"
    by (cases "f v (env w)")
  have built: "bind (ok v) (\<lambda>r. map_result r f) w =
      (case out of
         Inl x \<Rightarrow> (Inl x, w\<lparr>heap := heap w @ [Ok v], env := s'\<rparr>)
       | Inr u \<Rightarrow>
           (Inr (Suc (length (heap w))), w\<lparr>heap := heap w @ [Ok v, Ok u], env := s'\<rparr>))"
    using run
    by (cases out)
      (simp_all add: ok_def map_result_def Ok_map_def send_def bind_def call_def new_def)
  have seen: "fst (bind (ok v) (\<lambda>r. bind (map_result r f) observe) w) =
      (case out of Inl x \<Rightarrow> Inl x | Inr u \<Rightarrow> Inr (True, u))"
    using run
    by (cases out)
      (simp_all add: ok_def map_result_def Ok_map_def observe_def isOk_def Ok_isOk_def val_def
        Ok_val_def send_def bind_def call_def new_def ret_def nth_append)
  have value_of: "fst (bind (ok v) (\<lambda>r. bind (map_result r f) val) w) = out \<and>
      env (snd (bind (ok v) (\<lambda>r. bind (map_result r f) val) w)) = s'"
    using run
    by (cases out)
      (simp_all add: ok_def map_result_def Ok_map_def val_def Ok_val_def send_def bind_def
        call_def new_def ret_def nth_append)
  have pure: "fst (bind (ok v) (\<lambda>r. bind (map_result r (arrow h)) observe) w) = Inr (True, h v)"
    by (simp add: ok_def map_result_def Ok_map_def observe_def isOk_def Ok_isOk_def val_def
        Ok_val_def arrow_def send_def bind_def call_def new_def ret_def nth_append)
  have kept: "bind (err e) (\<lambda>r. map_result r f) w =
      (Inr (length (heap w)), w\<lparr>heap := heap w @ [Err e]\<rparr>)"
    by (simp add: err_def map_result_def Err_map_def ret_def)
  have err_same: "fst (bind (err e) (\<lambda>r. bind (map_result r f) observe) w) = Inr (False, e)"
    by (simp add: err_def map_result_def Err_map_def observe_def isOk_def Err_isOk_def val_def
        Err_val_def send_def bind_def new_def ret_def)
  have spied: "env (snd (bind (err e) (\<lambda>r. map_result r (spy k h)) \<lparr>heap = hp, env = []\<rparr>)) = []"
    by (simp add: err_def map_result_def Err_map_def ret_def send_def)
  from built seen value_of run pure kept err_same spied show ?thesis
    by simp
qed

text \<open>
  Claim C7. For every Result \<open>r\<close> of the store and callbacks \<open>f\<close> and \<open>g\<close>,
  \<^verbatim>\<open>r.map(f).map(g)\<close> and \<^verbatim>\<open>r.map(x => g(f(x)))\<close> are observed alike (same variant, same
  payload) and leave the caller's state alike. On an \<^verbatim>\<open>Ok\<close> holding \<open>v\<close> both carry
  \<open>g(f(v))\<close>; on an \<^verbatim>\<open>Err\<close> holding \<open>e\<close> both are observed as the \<^verbatim>\<open>Err\<close> holding \<open>e\<close>.
\<close>

theorem map_composition:
  assumes live: "r < length (heap w)"
  shows "fst (bind (map_result r f) (\<lambda>r1. bind (map_result r1 g) observe) w) =
      fst (bind (map_result r (compose g f)) observe w) \<and>
    env (snd (bind (map_result r f) (\<lambda>r1. bind (map_result r1 g) observe) w)) =
      env (snd (bind (map_result r (compose g f)) observe w)) \<and>
    (case heap w ! r of
       Ok v \<Rightarrow>
         fst (bind (map_result r (arrow a)) (\<lambda>r1. bind (map_result r1 (arrow b)) observe) w) =
           Inr (True, b (a v)) \<and>
         fst (bind (map_result r (arrow (\<lambda>x. b (a x)))) observe w) = Inr (True, b (a v))
     | Err e \<Rightarrow>
         fst (bind (map_result r f) (\<lambda>r1. bind (map_result r1 g) observe) w) = Inr (False, e) \<and>
         fst (bind (map_result r (compose g f)) observe w) = Inr (False, e))"
proof (cases "heap w ! r")
  case (Ok v)
  obtain out1 s1 where f: "f v (env w) = (out1, s1)"
    by (cases "f v (env w)")
  have pure: "fst (bind (map_result r (arrow a)) (\<lambda>r1. bind (map_result r1 (arrow b)) observe) w) =
        Inr (True, b (a v)) \<and>
      fst (bind (map_result r (arrow (\<lambda>x. b (a x)))) observe w) = Inr (True, b (a v))"
    using live Ok
    by (simp add: map_result_def Ok_map_def ok_def observe_def isOk_def Ok_isOk_def val_def
        Ok_val_def arrow_def send_def bind_def call_def new_def ret_def nth_append)
  show ?thesis
  proof (cases out1)
    case (Inl t)
    with live Ok f pure show ?thesis
      by (simp add: map_result_def Ok_map_def compose_def send_def bind_def call_def)
  next
    case (Inr y)
    obtain out2 s2 where g: "g y s1 = (out2, s2)"
      by (cases "g y s1")
    show ?thesis
    proof (cases out2)
      case (Inl t)
      with live Ok f Inr g pure show ?thesis
        by (simp add: map_result_def Ok_map_def ok_def compose_def send_def bind_def call_def
            new_def nth_append)
    next
      case (Inr z)
      with live Ok f \<open>out1 = Inr y\<close> g pure show ?thesis
        by (simp add: map_result_def Ok_map_def ok_def compose_def observe_def isOk_def
            Ok_isOk_def val_def Ok_val_def send_def bind_def call_def new_def ret_def
            nth_append)
    qed
  qed
next
  case (Err e)
  with live show ?thesis
    by (simp add: map_result_def Err_map_def observe_def isOk_def Err_isOk_def val_def
        Err_val_def send_def bind_def ret_def)
qed

theorem map_composition_witness:
  "0 < length (heap demo_world) \<and> Suc 0 < length (heap demo_world) \<and>
   fst (bind (map_result 0 (arrow (\<lambda>x. x @ ''!'')))
          (\<lambda>r1. bind (map_result r1 (arrow (\<lambda>x. x @ ''?''))) observe) demo_world) =
     Inr (True, ''a!?'') \<and>
   fst (bind (map_result 0 (arrow (\<lambda>x. (x @ ''!'') @ ''?''))) observe demo_world) =
     Inr (True, ''a!?'') \<and>
   fst (bind (map_result (Suc 0) (arrow (\<lambda>x. x @ ''!'')))
          (\<lambda>r1. bind (map_result r1 (arrow (\<lambda>x. x @ ''?''))) observe) demo_world) =
     Inr (False, ''b'') \<and>
   fst (bind (map_result (Suc 0) (compose (arrow (\<lambda>x. x @ ''?'')) (arrow (\<lambda>x. x @ ''!''))))
          observe demo_world) = Inr (False, ''b'')"
proof -
  have live0: "0 < length (heap demo_world)" and live1: "Suc 0 < length (heap demo_world)"
    by (simp_all add: demo_world_def)
  have at0: "heap demo_world ! 0 = Ok ''a''" and at1: "heap demo_world ! Suc 0 = Err ''b''"
    by (simp_all add: demo_world_def)
  note at_ok = map_composition [OF live0, where f = "arrow (\<lambda>x. x @ ''!'')"
      and g = "arrow (\<lambda>x. x @ ''?'')" and a = "\<lambda>x. x @ ''!''" and b = "\<lambda>x. x @ ''?''"]
  note at_err = map_composition [OF live1, where f = "arrow (\<lambda>x. x @ ''!'')"
      and g = "arrow (\<lambda>x. x @ ''?'')" and a = "\<lambda>x. x @ ''!''" and b = "\<lambda>x. x @ ''?''"]
  note ok_case = at_ok [THEN conjunct2, THEN conjunct2]
  note err_case = at_err [THEN conjunct2, THEN conjunct2]
  from live0 live1 ok_case err_case show ?thesis
    by (simp add: at0 at1)
qed

section \<open>Dispatch on the variant\<close>

text \<open>
  Claim C8. For every Result \<open>r\<close> of the store and callbacks \<open>onOk\<close> and \<open>onErr\<close>,
  \<^verbatim>\<open>match(r, onOk, onErr)\<close> is the call of \<open>onOk\<close> on the value when \<open>r\<close> is an \<^verbatim>\<open>Ok\<close> and
  the call of \<open>onErr\<close> on the error when it is an \<^verbatim>\<open>Err\<close>: it has that call's outcome and
  leaves that call's state. Exactly one of the two callbacks is invoked: with two spies,
  the log afterwards has the one entry of the callback of the variant. In particular
  \<^verbatim>\<open>match(ok(2), x => x*2, () => -1)\<close> is 4 and \<^verbatim>\<open>match(err("boom"), x => x*2, () => -1)\<close>
  is -1.
\<close>

theorem match_dispatch:
  assumes live: "r < length (heap w)"
  shows "match r onOk onErr w =
      (case heap w ! r of Ok v \<Rightarrow> call onOk v w | Err e \<Rightarrow> call onErr e w) \<and>
    env (snd (match r (spy ''onOk'' a) (spy ''onErr'' b) \<lparr>heap = heap w, env = []\<rparr>)) =
      (case heap w ! r of Ok v \<Rightarrow> [(''onOk'', v)] | Err e \<Rightarrow> [(''onErr'', e)]) \<and>
    fst (bind (ok (Num 2)) (\<lambda>x. match x (arrow (times2 t)) (arrow (\<lambda>_. Num (- 1)))) u) =
      Inr (Num 4) \<and>
    fst (bind (err (Str ''boom'')) (\<lambda>x. match x (arrow (times2 t)) (arrow (\<lambda>_. Num (- 1)))) u) =
      Inr (Num (- 1))"
proof -
  have general: "match r onOk onErr w =
      (case heap w ! r of Ok v \<Rightarrow> call onOk v w | Err e \<Rightarrow> call onErr e w)"
    using live
    by (simp add: match_def isOk_def val_def Ok_isOk_def Err_isOk_def Ok_val_def Err_val_def
        send_def bind_def ret_def split: obj.splits)
  have spied: "env (snd (match r (spy ''onOk'' a) (spy ''onErr'' b) \<lparr>heap = heap w, env = []\<rparr>)) =
      (case heap w ! r of Ok v \<Rightarrow> [(''onOk'', v)] | Err e \<Rightarrow> [(''onErr'', e)])"
    using live
    by (simp add: match_def isOk_def val_def Ok_isOk_def Err_isOk_def Ok_val_def Err_val_def
        send_def bind_def ret_def call_def spy_def split: obj.splits)
  have four: "fst (bind (ok (Num 2)) (\<lambda>x. match x (arrow (times2 t)) (arrow (\<lambda>_. Num (- 1)))) u) =
      Inr (Num 4)"
    by (simp add: ok_def match_def isOk_def val_def Ok_isOk_def Ok_val_def send_def bind_def
        new_def ret_def call_def arrow_def times2_def)
  have minus_one:
    "fst (bind (err (Str ''boom'')) (\<lambda>x. match x (arrow (times2 t)) (arrow (\<lambda>_. Num (- 1)))) u) =
      Inr (Num (- 1))"
    by (simp add: err_def match_def isOk_def val_def Err_isOk_def Err_val_def send_def bind_def
        new_def ret_def call_def arrow_def)
  from general spied four minus_one show ?thesis
    by simp
qed

theorem match_dispatch_witness:
  "0 < length (heap demo_world) \<and> Suc 0 < length (heap demo_world) \<and>
   match 0 tick (arrow (\<lambda>_. ())) demo_world = (Inr (), demo_world\<lparr>env := 1\<rparr>) \<and>
   match (Suc 0) tick (arrow (\<lambda>_. ())) demo_world = (Inr (), demo_world) \<and>
   env (snd (match 0 (spy ''onOk'' length) (spy ''onErr'' length)
          \<lparr>heap = heap demo_world, env = []\<rparr>)) = [(''onOk'', ''a'')] \<and>
   env (snd (match (Suc 0) (spy ''onOk'' length) (spy ''onErr'' length)
          \<lparr>heap = heap demo_world, env = []\<rparr>)) = [(''onErr'', ''b'')]"
proof -
  have live0: "0 < length (heap demo_world)" and live1: "Suc 0 < length (heap demo_world)"
    by (simp_all add: demo_world_def)
  have at0: "heap demo_world ! 0 = Ok ''a''" and at1: "heap demo_world ! Suc 0 = Err ''b''"
    by (simp_all add: demo_world_def)
  note at_ok = match_dispatch [OF live0, where onOk = tick and onErr = "arrow (\<lambda>_. ())"
      and a = length and b = length]
  note at_err = match_dispatch [OF live1, where onOk = tick and onErr = "arrow (\<lambda>_. ())"
      and a = length and b = length]
  have "call tick ''a'' demo_world = (Inr (), demo_world\<lparr>env := 1\<rparr>)"
    by (simp add: call_def tick_def demo_world_def)
  moreover have "call (arrow (\<lambda>_. ())) ''b'' demo_world = (Inr (), demo_world)"
    by (simp add: call_def arrow_def demo_world_def)
  ultimately show ?thesis
    using live0 live1 at_ok [THEN conjunct1] at_ok [THEN conjunct2, THEN conjunct1]
      at_err [THEN conjunct1] at_err [THEN conjunct2, THEN conjunct1]
    by (simp add: at0 at1)
qed

section \<open>Looking at the payload\<close>

text \<open>
  Claim C9, as the code has it. For every Result \<open>r\<close> of the store and callback \<open>f\<close>: on an
  \<^verbatim>\<open>Ok\<close> holding \<open>v\<close>, \<^verbatim>\<open>inspect\<close> makes one call of \<open>f\<close> on \<open>v\<close> and \<^verbatim>\<open>inspectErr\<close> makes none; on
  an \<^verbatim>\<open>Err\<close> holding \<open>e\<close>, \<^verbatim>\<open>inspectErr\<close> makes one call of \<open>f\<close> on \<open>e\<close> and \<^verbatim>\<open>inspect\<close> makes
  none; a spy's log afterwards holds that one argument, or nothing. Where no call is made,
  and where the call returns, the method returns \<open>r\<close> itself with the store as it was, so
  what it returns is observed as the input is: same variant, same payload. Where the call
  throws, the method ends with that throw and returns nothing.
\<close>

theorem inspect_once:
  assumes live: "r < length (heap w)"
  shows "(case heap w ! r of
       Ok v \<Rightarrow>
         inspect r f w =
           (case f v (env w) of
              (Inl x, s') \<Rightarrow> (Inl x, w\<lparr>env := s'\<rparr>)
            | (Inr u, s') \<Rightarrow> (Inr r, w\<lparr>env := s'\<rparr>)) \<and>
         inspectErr r f w = (Inr r, w) \<and>
         fst (bind (inspect r f) observe w) =
           (case fst (f v (env w)) of Inl x \<Rightarrow> Inl x | Inr u \<Rightarrow> fst (observe r w)) \<and>
         fst (bind (inspectErr r f) observe w) = fst (observe r w) \<and>
         fst (observe r w) = Inr (True, v)
     | Err e \<Rightarrow>
         inspect r f w = (Inr r, w) \<and>
         inspectErr r f w =
           (case f e (env w) of
              (Inl x, s') \<Rightarrow> (Inl x, w\<lparr>env := s'\<rparr>)
            | (Inr u, s') \<Rightarrow> (Inr r, w\<lparr>env := s'\<rparr>)) \<and>
         fst (bind (inspect r f) observe w) = fst (observe r w) \<and>
         fst (bind (inspectErr r f) observe w) =
           (case fst (f e (env w)) of Inl x \<Rightarrow> Inl x | Inr u \<Rightarrow> fst (observe r w)) \<and>
         fst (observe r w) = Inr (False, e)) \<and>
    env (snd (inspect r (spy k a) \<lparr>heap = heap w, env = []\<rparr>)) =
      (case heap w ! r of Ok v \<Rightarrow> [(k, v)] | Err e \<Rightarrow> []) \<and>
    env (snd (inspectErr r (spy k a) \<lparr>heap = heap w, env = []\<rparr>)) =
      (case heap w ! r of Ok v \<Rightarrow> [] | Err e \<Rightarrow> [(k, e)])"
proof -
  have spied: "env (snd (inspect r (spy k a) \<lparr>heap = heap w, env = []\<rparr>)) =
        (case heap w ! r of Ok v \<Rightarrow> [(k, v)] | Err e \<Rightarrow> []) \<and>
      env (snd (inspectErr r (spy k a) \<lparr>heap = heap w, env = []\<rparr>)) =
        (case heap w ! r of Ok v \<Rightarrow> [] | Err e \<Rightarrow> [(k, e)])"
    using live
    by (simp add: inspect_def inspectErr_def Ok_inspect_def Err_inspect_def Ok_inspectErr_def
        Err_inspectErr_def send_def bind_def call_def ret_def spy_def split: obj.splits)
  show ?thesis
  proof (cases "heap w ! r")
    case (Ok v)
    obtain out s' where run: "f v (env w) = (out, s')"
      by (cases "f v (env w)")
    have idle: "inspectErr r f w = (Inr r, w)"
      using live Ok
      by (simp add: inspectErr_def Ok_inspectErr_def send_def ret_def)
    have seen: "fst (observe r w) = Inr (True, v)"
      using live Ok
      by (simp add: observe_def isOk_def val_def Ok_isOk_def Ok_val_def send_def bind_def
          ret_def)
    have looked: "inspect r f w =
          (case out of Inl x \<Rightarrow> (Inl x, w\<lparr>env := s'\<rparr>) | Inr u \<Rightarrow> (Inr r, w\<lparr>env := s'\<rparr>)) \<and>
        fst (bind (inspect r f) observe w) =
          (case out of Inl x \<Rightarrow> Inl x | Inr u \<Rightarrow> Inr (True, v))"
      using live Ok run
      by (cases out)
        (simp_all add: inspect_def Ok_inspect_def observe_def isOk_def val_def Ok_isOk_def
          Ok_val_def send_def bind_def call_def ret_def)
    have "fst (bind (inspectErr r f) observe w) = fst (observe r w)"
      using idle by (simp add: bind_def)
    with Ok run idle seen looked spied show ?thesis
      by (cases out) simp_all
  next
    case (Err e)
    obtain out s' where run: "f e (env w) = (out, s')"
      by (cases "f e (env w)")
    have idle: "inspect r f w = (Inr r, w)"
      using live Err
      by (simp add: inspect_def Err_inspect_def send_def ret_def)
    have seen: "fst (observe r w) = Inr (False, e)"
      using live Err
      by (simp add: observe_def isOk_def val_def Err_isOk_def Err_val_def send_def bind_def
          ret_def)
    have looked: "inspectErr r f w =
          (case out of Inl x \<Rightarrow> (Inl x, w\<lparr>env := s'\<rparr>) | Inr u \<Rightarrow> (Inr r, w\<lparr>env := s'\<rparr>)) \<and>
        fst (bind (inspectErr r f) observe w) =
          (case out of Inl x \<Rightarrow> Inl x | Inr u \<Rightarrow> Inr (False, e))"
      using live Err run
      by (cases out)
        (simp_all add: inspectErr_def Err_inspectErr_def observe_def isOk_def val_def
          Err_isOk_def Err_val_def send_def bind_def call_def ret_def)
    have "fst (bind (inspect r f) observe w) = fst (observe r w)"
      using idle by (simp add: bind_def)
    with Err run idle seen looked spied show ?thesis
      by (cases out) simp_all
  qed
qed

theorem inspect_once_witness:
  "0 < length (heap demo_world) \<and> Suc 0 < length (heap demo_world) \<and>
   inspect 0 tick demo_world = (Inr 0, demo_world\<lparr>env := 1\<rparr>) \<and>
   inspectErr 0 tick demo_world = (Inr 0, demo_world) \<and>
   inspect (Suc 0) tick demo_world = (Inr (Suc 0), demo_world) \<and>
   inspectErr (Suc 0) tick demo_world = (Inr (Suc 0), demo_world\<lparr>env := 1\<rparr>) \<and>
   fst (bind (inspect 0 tick) observe demo_world) = Inr (True, ''a'') \<and>
   fst (bind (inspectErr (Suc 0) tick) observe demo_world) = Inr (False, ''b'') \<and>
   env (snd (inspect 0 (spy ''f'' length) \<lparr>heap = heap demo_world, env = []\<rparr>)) =
     [(''f'', ''a'')] \<and>
   env (snd (inspect (Suc 0) (spy ''f'' length) \<lparr>heap = heap demo_world, env = []\<rparr>)) = [] \<and>
   env (snd (inspectErr 0 (spy ''f'' length) \<lparr>heap = heap demo_world, env = []\<rparr>)) = [] \<and>
   env (snd (inspectErr (Suc 0) (spy ''f'' length) \<lparr>heap = heap demo_world, env = []\<rparr>)) =
     [(''f'', ''b'')]"
proof -
  have live0: "0 < length (heap demo_world)" and live1: "Suc 0 < length (heap demo_world)"
    by (simp_all add: demo_world_def)
  have at0: "heap demo_world ! 0 = Ok ''a''" and at1: "heap demo_world ! Suc 0 = Err ''b''"
    by (simp_all add: demo_world_def)
  have run: "tick x (env demo_world) = (Inr (), 1)" for x :: string
    by (simp add: tick_def demo_world_def)
  note at_ok = inspect_once [where r = 0 and w = demo_world and f = tick and k = "''f''"
      and a = length, OF live0, unfolded at0 obj.case run]
  note at_err = inspect_once [where r = "Suc 0" and w = demo_world and f = tick
      and k = "''f''" and a = length, OF live1, unfolded at1 obj.case run]
  from live0 live1 at_ok at_err show ?thesis
    by simp
qed

text \<open>
  The methods do not return for every callback: with the callback \<^verbatim>\<open>x => { throw x }\<close>,
  \<^verbatim>\<open>inspect\<close> on the \<^verbatim>\<open>Ok\<close> of the example store and \<^verbatim>\<open>inspectErr\<close> on its \<^verbatim>\<open>Err\<close> end with the
  payload thrown, and return no Result.
\<close>

theorem inspect_returns_counterexample:
  "inspect 0 (rethrow :: (string, nat, unit) callback) demo_world =
     (Inl (Thrown ''a''), demo_world) \<and>
   \<not> returns (inspect 0 (rethrow :: (string, nat, unit) callback) demo_world) \<and>
   inspectErr (Suc 0) (rethrow :: (string, nat, unit) callback) demo_world =
     (Inl (Thrown ''b''), demo_world) \<and>
   \<not> returns (inspectErr (Suc 0) (rethrow :: (string, nat, unit) callback) demo_world)"
  by (simp add: inspect_def inspectErr_def Ok_inspect_def Err_inspectErr_def send_def bind_def
      call_def rethrow_def returns_def demo_world_def)

section \<open>Identity of the returned instance\<close>

text \<open>
  \<^verbatim>\<open>Ok.map\<close> builds its result with \<^verbatim>\<open>ok\<close>: the instance it returns is not the one it was
  called on.
\<close>

lemma map_on_ok_allocates:
  "fst (bind (ok v) (\<lambda>r. bind (map_result r (arrow f)) (\<lambda>r'. ret (r' = r))) w) = Inr False"
  by (simp add: ok_def map_result_def Ok_map_def arrow_def send_def bind_def call_def new_def
      ret_def)

text \<open>
  Claim C10. The paths that change nothing return the instance they were called on, and
  allocate nothing: for every error \<open>e\<close> and callback \<open>f\<close>, \<^verbatim>\<open>err(e).map(f)\<close> and
  \<^verbatim>\<open>err(e).inspect(f)\<close> return the very reference \<^verbatim>\<open>err(e)\<close> returned, and for every value
  \<open>v\<close>, \<^verbatim>\<open>ok(v).mapErr(f)\<close> and \<^verbatim>\<open>ok(v).inspectErr(f)\<close> return the very reference \<^verbatim>\<open>ok(v)\<close>
  returned; in each case the store afterwards is the store before with the one cell of the
  constructor, and the caller's state is as it was.
\<close>

theorem noop_paths_return_this:
  "bind (err e) (\<lambda>r. bind (map_result r f) (\<lambda>r'. ret (r' = r))) w =
     (Inr True, w\<lparr>heap := heap w @ [Err e]\<rparr>) \<and>
   bind (err e) (\<lambda>r. bind (inspect r g) (\<lambda>r'. ret (r' = r))) w =
     (Inr True, w\<lparr>heap := heap w @ [Err e]\<rparr>) \<and>
   bind (ok v) (\<lambda>r. bind (mapErr r f) (\<lambda>r'. ret (r' = r))) w =
     (Inr True, w\<lparr>heap := heap w @ [Ok v]\<rparr>) \<and>
   bind (ok v) (\<lambda>r. bind (inspectErr r g) (\<lambda>r'. ret (r' = r))) w =
     (Inr True, w\<lparr>heap := heap w @ [Ok v]\<rparr>)"
  by (simp add: ok_def err_def map_result_def inspect_def mapErr_def inspectErr_def
      Err_map_def Err_inspect_def Ok_mapErr_def Ok_inspectErr_def send_def bind_def new_def
      ret_def)

end
